theory Spec2Isabelle
  imports Complex_Main
begin

section \<open>Values and arrays\<close>

text \<open>
  The exceptions the pipeline of \<^verbatim>\<open>MTM/__init__.py\<close> can raise. The two built-in
  exceptions carry the message of the \<^verbatim>\<open>raise\<close> statement, so that two checks raising
  the same class are told apart. \<open>ZeroDivisionError\<close> is what \<^verbatim>\<open>%\<close> raises on a zero
  modulus, \<open>IndexError\<close> what an out-of-range array or list read raises, and
  \<open>ProviderError\<close> stands for whatever the external correlation routine raises.
\<close>

datatype error =
    TypeError string
  | ValueError string
  | IndexError
  | ZeroDivisionError
  | ProviderError string

text \<open>
  The argument \<^verbatim>\<open>nObjects\<close>: the float \<^verbatim>\<open>float("inf")\<close>, a value of type \<^verbatim>\<open>int\<close>, or
  any other (finite) float. Scores are floats in the source; they are modelled as reals.
\<close>

datatype pynum = PyInf | PyInt int | PyFloat real

fun py_is_inf :: "pynum \<Rightarrow> bool" where
  "py_is_inf PyInf = True"
| "py_is_inf _ = False"

fun py_type_is_int :: "pynum \<Rightarrow> bool" where
  "py_type_is_int (PyInt _) = True"
| "py_type_is_int _ = False"

fun py_eq_one :: "pynum \<Rightarrow> bool" where
  "py_eq_one PyInf = False"
| "py_eq_one (PyInt n) = (n = 1)"
| "py_eq_one (PyFloat r) = (r = 1)"

fun py_lt_one :: "pynum \<Rightarrow> bool" where
  "py_lt_one PyInf = False"
| "py_lt_one (PyInt n) = (n < 1)"
| "py_lt_one (PyFloat r) = (r < 1)"

text \<open>
  A two-dimensional numpy array: its shape \<open>(nrows, ncols)\<close> and its cells, read as
  \<open>px a row col\<close>. Only the cells inside the shape belong to the array.
\<close>

record 'a ndarray =
  nrows :: nat
  ncols :: nat
  px :: "nat \<Rightarrow> nat \<Rightarrow> 'a"

definition shape :: "'a ndarray \<Rightarrow> nat \<times> nat" where
  "shape a = (nrows a, ncols a)"

text \<open>\<^verbatim>\<open>corrMap[tuple(peak)]\<close>: a read at a coordinate pair, raising outside the shape.\<close>

definition item :: "'a ndarray \<Rightarrow> nat \<times> nat \<Rightarrow> error + 'a" where
  "item a peak =
     (if fst peak < nrows a \<and> snd peak < ncols a
      then Inr (px a (fst peak) (snd peak)) else Inl IndexError)"

section \<open>Peak extraction\<close>

text \<open>
  \<^verbatim>\<open>skimage.feature.peak_local_max(corrMap, threshold_abs, exclude_border=False, num_peaks)\<close>
  is an external routine: it is a parameter of the model, taking the surface, the absolute
  threshold and the number of peaks asked for, and returning (row, column) pairs.
\<close>

type_synonym peak_search = "real ndarray \<Rightarrow> real \<Rightarrow> pynum \<Rightarrow> (nat \<times> nat) list"

definition nPeaks :: "pynum \<Rightarrow> pynum" where
  "nPeaks nObjects = (if py_eq_one nObjects then PyInt 1 else PyInf)"

definition findMaximas :: "peak_search \<Rightarrow> real ndarray \<Rightarrow> real \<Rightarrow> pynum \<Rightarrow> (nat \<times> nat) list" where
  "findMaximas peak_local_max corrMap score_threshold nObjects =
     (if shape corrMap = (1, 1)
      then (if px corrMap 0 0 \<ge> score_threshold then [(0, 0)] else [])
      else peak_local_max corrMap score_threshold (nPeaks nObjects))"

text \<open>A surface holding the single value \<open>v\<close>.\<close>

definition scalar_map :: "real \<Rightarrow> real ndarray" where
  "scalar_map v = \<lparr>nrows = 1, ncols = 1, px = (\<lambda>i j. v)\<rparr>"

section \<open>Detections and the search region\<close>

text \<open>
  A detection as \<^verbatim>\<open>BoundingBox(bbox, score, index, label)\<close> builds it: the box
  \<open>(x, y, width, height)\<close>, the score, the index of the template and the label.
\<close>

record detection =
  bbox :: "int \<times> int \<times> nat \<times> nat"
  score :: real
  template_index :: nat
  label :: string

definition BoundingBox :: "int \<times> int \<times> nat \<times> nat \<Rightarrow> real \<Rightarrow> nat \<Rightarrow> string \<Rightarrow> detection" where
  "BoundingBox box sc index lbl =
     \<lparr>bbox = box, score = sc, template_index = index, label = lbl\<rparr>"

text \<open>
  A bound of a Python slice \<^verbatim>\<open>a[start:stop]\<close> on a dimension of length \<open>n\<close>: a
  negative bound counts from the end, and the result is clamped to \<open>0..n\<close>.
\<close>

definition slice_bound :: "nat \<Rightarrow> int \<Rightarrow> nat" where
  "slice_bound n i =
     (let j = (if i < 0 then i + int n else i)
      in if j < 0 then 0 else if j \<ge> int n then n else nat j)"

text \<open>\<^verbatim>\<open>a[r0:r1, c0:c1]\<close>; a slice whose stop is not after its start is empty.\<close>

definition slice2 :: "'a ndarray \<Rightarrow> int \<Rightarrow> int \<Rightarrow> int \<Rightarrow> int \<Rightarrow> 'a ndarray" where
  "slice2 a r0 r1 c0 c1 =
     (let rs = slice_bound (nrows a) r0; re = slice_bound (nrows a) r1;
          cs = slice_bound (ncols a) c0; ce = slice_bound (ncols a) c1
      in \<lparr>nrows = re - rs, ncols = ce - cs, px = (\<lambda>i j. px a (rs + i) (cs + j))\<rparr>)"

type_synonym search_box = "int \<times> int \<times> int \<times> int"

text \<open>The cropping step of \<^verbatim>\<open>findMatches\<close>: the image searched and the two offsets.\<close>

definition crop :: "'a ndarray \<Rightarrow> search_box option \<Rightarrow> 'a ndarray \<times> int \<times> int" where
  "crop img searchBox =
     (case searchBox of
        Some (xOffset, yOffset, searchWidth, searchHeight) \<Rightarrow>
          (slice2 img yOffset (yOffset + searchHeight) xOffset (xOffset + searchWidth),
           xOffset, yOffset)
      | None \<Rightarrow> (img, 0, 0))"

section \<open>Candidate assembly\<close>

text \<open>
  \<^verbatim>\<open>skimage.feature.match_template(image, template)\<close> is external: a parameter that
  returns a surface or raises. Every call of it is recorded, in order, in a log of
  (image, template) pairs that the functions below return beside their result.
\<close>

type_synonym 'a correlation = "'a ndarray \<Rightarrow> 'a ndarray \<Rightarrow> error + real ndarray"

type_synonym 'a calls = "('a ndarray \<times> 'a ndarray) list"

text \<open>\<^verbatim>\<open>listLabels[index] if listLabels else ""\<close>: \<^verbatim>\<open>None\<close> and the empty list are falsy.\<close>

definition label_for :: "string list option \<Rightarrow> nat \<Rightarrow> error + string" where
  "label_for listLabels index =
     (case listLabels of
        None \<Rightarrow> Inr ''''
      | Some ls \<Rightarrow>
          if ls = [] then Inr ''''
          else if index < length ls then Inr (ls ! index) else Inl IndexError)"

text \<open>The inner loop \<^verbatim>\<open>for peak in listPeaks\<close>, appending to \<^verbatim>\<open>listHit\<close>.\<close>

fun peaks_loop ::
  "real ndarray \<Rightarrow> int \<Rightarrow> int \<Rightarrow> nat \<Rightarrow> nat \<Rightarrow> nat \<Rightarrow> string \<Rightarrow> (nat \<times> nat) list
     \<Rightarrow> detection list \<Rightarrow> error + detection list" where
  "peaks_loop corrMap xOffset yOffset width height index lbl [] listHit = Inr listHit"
| "peaks_loop corrMap xOffset yOffset width height index lbl (peak # rest) listHit =
     (case item corrMap peak of
        Inl e \<Rightarrow> Inl e
      | Inr sc \<Rightarrow>
          peaks_loop corrMap xOffset yOffset width height index lbl rest
            (listHit @
               [BoundingBox (int (snd peak) + xOffset, int (fst peak) + yOffset, width, height)
                  sc index lbl]))"

text \<open>The outer loop \<^verbatim>\<open>for index, template in enumerate(listTemplates)\<close>.\<close>

fun templates_loop ::
  "'a correlation \<Rightarrow> peak_search \<Rightarrow> 'a ndarray \<Rightarrow> string list option \<Rightarrow> real \<Rightarrow> pynum
     \<Rightarrow> int \<Rightarrow> int \<Rightarrow> nat \<Rightarrow> 'a ndarray list \<Rightarrow> detection list \<Rightarrow> 'a calls
     \<Rightarrow> (error + detection list) \<times> 'a calls" where
  "templates_loop match_template peak_local_max img listLabels score_threshold nObjects
     xOffset yOffset index [] listHit calls = (Inr listHit, calls)"
| "templates_loop match_template peak_local_max img listLabels score_threshold nObjects
     xOffset yOffset index (template # rest) listHit calls =
     (case match_template img template of
        Inl e \<Rightarrow> (Inl e, calls @ [(img, template)])
      | Inr corrMap \<Rightarrow>
          (let listPeaks = findMaximas peak_local_max corrMap score_threshold nObjects;
               height = nrows template; width = ncols template
           in case label_for listLabels index of
                Inl e \<Rightarrow> (Inl e, calls @ [(img, template)])
              | Inr lbl \<Rightarrow>
                  (case peaks_loop corrMap xOffset yOffset width height index lbl
                          listPeaks listHit of
                     Inl e \<Rightarrow> (Inl e, calls @ [(img, template)])
                   | Inr listHit' \<Rightarrow>
                       templates_loop match_template peak_local_max img listLabels
                         score_threshold nObjects xOffset yOffset (Suc index) rest listHit'
                         (calls @ [(img, template)]))))"

definition findMatches ::
  "'a correlation \<Rightarrow> peak_search \<Rightarrow> 'a ndarray \<Rightarrow> 'a ndarray list \<Rightarrow> string list option
     \<Rightarrow> real \<Rightarrow> pynum \<Rightarrow> search_box option \<Rightarrow> (error + detection list) \<times> 'a calls" where
  "findMatches match_template peak_local_max img listTemplates listLabels score_threshold
     nObjects searchBox =
     (if \<not> py_is_inf nObjects \<and> \<not> py_type_is_int nObjects
      then (Inl (TypeError ''nObjects must be an integer''), [])
      else if py_lt_one nObjects
      then (Inl (ValueError ''At least one object should be expected in the image''), [])
      else if listLabels \<noteq> None \<and> length listTemplates \<noteq> length (the listLabels)
      then (Inl (ValueError ''There must be one label per template.''), [])
      else (case crop img searchBox of
              (img', xOffset, yOffset) \<Rightarrow>
                templates_loop match_template peak_local_max img' listLabels score_threshold
                  nObjects xOffset yOffset 0 listTemplates [] []))"

section \<open>The pipeline\<close>

text \<open>
  \<^verbatim>\<open>NMS(listHit, maxOverlap, nObjects)\<close> lives in \<^verbatim>\<open>MTM/NMS.py\<close>, which is not among the
  sources at hand; \<open>matchTemplates\<close> takes it as a parameter.
\<close>

type_synonym suppression = "detection list \<Rightarrow> real \<Rightarrow> pynum \<Rightarrow> error + detection list"

definition matchTemplates ::
  "'a correlation \<Rightarrow> peak_search \<Rightarrow> suppression \<Rightarrow> 'a ndarray \<Rightarrow> 'a ndarray list
     \<Rightarrow> string list option \<Rightarrow> real \<Rightarrow> real \<Rightarrow> pynum \<Rightarrow> search_box option
     \<Rightarrow> (error + detection list) \<times> 'a calls" where
  "matchTemplates match_template peak_local_max NMS img listTemplates listLabels
     score_threshold maxOverlap nObjects searchBox =
     (if maxOverlap < 0 \<or> maxOverlap > 1
      then (Inl (ValueError ''Maximal overlap between bounding box is in range [0-1]''), [])
      else (case findMatches match_template peak_local_max img listTemplates listLabels
                   score_threshold nObjects searchBox of
              (Inl e, calls) \<Rightarrow> (Inl e, calls)
            | (Inr listHit, calls) \<Rightarrow> (NMS listHit maxOverlap nObjects, calls)))"

section \<open>Plotting\<close>

text \<open>
  \<^verbatim>\<open>plotDetections\<close> draws through matplotlib; the model returns what it asks matplotlib
  to draw: one \<^verbatim>\<open>plt.plot\<close> call per detection, and the legend. The palette
  (\<^verbatim>\<open>plt.cm.Set3.colors\<close> in the source) is a parameter.
\<close>

record 'c plot_call =
  outlined :: detection
  linewidth :: nat
  color :: 'c

datatype 'c legend = NoLegend | LegendSkipped | Legend "(string \<times> 'c) list"

text \<open>\<^verbatim>\<open>mapLabelColor[label] = color\<close> on a dict kept in insertion order.\<close>

fun dict_set :: "'k \<Rightarrow> 'v \<Rightarrow> ('k \<times> 'v) list \<Rightarrow> ('k \<times> 'v) list" where
  "dict_set k v [] = [(k, v)]"
| "dict_set k v (p # ps) = (if fst p = k then (k, v) # ps else p # dict_set k v ps)"

definition colorIndex :: "detection \<Rightarrow> nat \<Rightarrow> error + nat" where
  "colorIndex d nColors =
     (if nColors = 0 then Inl ZeroDivisionError else Inr (template_index d mod nColors))"

fun plot_loop ::
  "'c list \<Rightarrow> nat \<Rightarrow> bool \<Rightarrow> detection list \<Rightarrow> 'c plot_call list \<Rightarrow> (string \<times> 'c) list
     \<Rightarrow> error + ('c plot_call list \<times> (string \<times> 'c) list)" where
  "plot_loop palette thickness showLegend [] plots mapLabelColor = Inr (plots, mapLabelColor)"
| "plot_loop palette thickness showLegend (d # rest) plots mapLabelColor =
     (case colorIndex d (length palette) of
        Inl e \<Rightarrow> Inl e
      | Inr ci \<Rightarrow>
          (let c = palette ! ci;
               plots' = plots @ [\<lparr>outlined = d, linewidth = thickness, color = c\<rparr>];
               mapLabelColor' =
                 (if showLegend \<and> label d \<noteq> '''' then dict_set (label d) c mapLabelColor
                  else mapLabelColor)
           in plot_loop palette thickness showLegend rest plots' mapLabelColor'))"

definition plotDetections ::
  "'c list \<Rightarrow> detection list \<Rightarrow> nat \<Rightarrow> bool \<Rightarrow> error + ('c plot_call list \<times> 'c legend)" where
  "plotDetections palette listDetections thickness showLegend =
     (case plot_loop palette thickness showLegend listDetections [] [] of
        Inl e \<Rightarrow> Inl e
      | Inr (plots, mapLabelColor) \<Rightarrow>
          Inr (plots,
               if showLegend
               then (if mapLabelColor = [] then LegendSkipped else Legend mapLabelColor)
               else NoLegend))"

section \<open>What one template contributes\<close>

text \<open>
  The detection the loop body builds from one peak, and the detections one template
  contributes: one per peak, in the order \<open>findMaximas\<close> returned the peaks (none
  when the correlation or the label lookup raises). They describe the result of the
  loops above.
\<close>

definition hit_at ::
  "real ndarray \<Rightarrow> int \<Rightarrow> int \<Rightarrow> 'a ndarray \<Rightarrow> nat \<Rightarrow> string \<Rightarrow> nat \<times> nat \<Rightarrow> detection" where
  "hit_at corrMap xOffset yOffset template index lbl peak =
     BoundingBox (int (snd peak) + xOffset, int (fst peak) + yOffset, ncols template, nrows template)
       (px corrMap (fst peak) (snd peak)) index lbl"

definition hits_of ::
  "'a correlation \<Rightarrow> peak_search \<Rightarrow> 'a ndarray \<Rightarrow> string list option \<Rightarrow> real \<Rightarrow> pynum
     \<Rightarrow> int \<Rightarrow> int \<Rightarrow> nat \<Rightarrow> 'a ndarray \<Rightarrow> detection list" where
  "hits_of match_template peak_local_max img listLabels score_threshold nObjects xOffset yOffset
     index template =
     (case match_template img template of
        Inl e \<Rightarrow> []
      | Inr corrMap \<Rightarrow>
          (case label_for listLabels index of
             Inl e \<Rightarrow> []
           | Inr lbl \<Rightarrow>
               map (hit_at corrMap xOffset yOffset template index lbl)
                 (findMaximas peak_local_max corrMap score_threshold nObjects)))"

section \<open>Stand-ins for the external routines\<close>

text \<open>
  Concrete images, and simple stand-ins for the external correlation, peak search and
  suppression routines, for evaluating the pipeline at concrete inputs.
\<close>

definition ex_image :: "real ndarray" where
  "ex_image = \<lparr>nrows = 50, ncols = 50, px = (\<lambda>i j. real (50 * i + j))\<rparr>"

definition ex_grid :: "real ndarray" where
  "ex_grid = \<lparr>nrows = 3, ncols = 3, px = (\<lambda>i j. real (3 * i + j))\<rparr>"

definition ex_template :: "real ndarray" where
  "ex_template = \<lparr>nrows = 10, ncols = 10, px = (\<lambda>i j. 0)\<rparr>"

definition ex_template2 :: "real ndarray" where
  "ex_template2 = \<lparr>nrows = 8, ncols = 8, px = (\<lambda>i j. 1)\<rparr>"

definition ex_match_template :: "real correlation" where
  "ex_match_template img template =
     (if nrows template \<le> nrows img \<and> ncols template \<le> ncols img
      then Inr \<lparr>nrows = nrows img - nrows template + 1,
                ncols = ncols img - ncols template + 1,
                px = (\<lambda>i j. if i = 5 \<and> j = 5 then 0.9 else 0)\<rparr>
      else Inl (ProviderError ''template larger than image''))"

definition ex_peak_local_max :: peak_search where
  "ex_peak_local_max corrMap threshold_abs num_peaks =
     (if px corrMap 5 5 \<ge> threshold_abs then [(5, 5)] else [])"

definition ex_NMS :: suppression where
  "ex_NMS listHit maxOverlap nObjects = Inr listHit"

definition ex_surface :: "real ndarray" where
  "ex_surface = \<lparr>nrows = 2, ncols = 2, px = (\<lambda>i j. 0.7)\<rparr>"

section \<open>The search region as the specification words it\<close>

text \<open>
  The part of the image that lies inside the rectangle of a search box
  \<open>(x, y, w, h)\<close>: rows \<open>y\<close> to \<open>y + h\<close> and columns \<open>x\<close> to \<open>x + w\<close>, cut at the
  borders of the image. It follows the wording "the intersection of the search box with
  the image"; it is compared with \<open>crop\<close> below.
\<close>

definition box_intersection :: "'a ndarray \<Rightarrow> search_box \<Rightarrow> 'a ndarray" where
  "box_intersection img box =
     (case box of (x, y, w, h) \<Rightarrow>
        (let top = nat (max 0 y); bottom = nat (min (int (nrows img)) (y + h));
             left = nat (max 0 x); right = nat (min (int (ncols img)) (x + w))
         in \<lparr>nrows = bottom - top, ncols = right - left,
              px = (\<lambda>i j. px img (top + i) (left + j))\<rparr>))"

section \<open>The order of validation as the specification words it\<close>

text \<open>
  The specification lists the checks of \<open>matchTemplates\<close> in this order: the type of
  \<open>nObjects\<close>, then \<open>nObjects \<ge> 1\<close>, then the number of labels, and last
  \<open>maxOverlap\<close>. This function follows that wording and returns the first failure; it
  is compared with \<open>matchTemplates\<close> below.
\<close>

definition validation_in_claimed_order ::
  "pynum \<Rightarrow> nat \<Rightarrow> string list option \<Rightarrow> real \<Rightarrow> error option" where
  "validation_in_claimed_order nObjects nTemplates listLabels maxOverlap =
     (if \<not> py_is_inf nObjects \<and> \<not> py_type_is_int nObjects
      then Some (TypeError ''nObjects must be an integer'')
      else if py_lt_one nObjects
      then Some (ValueError ''At least one object should be expected in the image'')
      else if listLabels \<noteq> None \<and> nTemplates \<noteq> length (the listLabels)
      then Some (ValueError ''There must be one label per template.'')
      else if maxOverlap < 0 \<or> maxOverlap > 1
      then Some (ValueError ''Maximal overlap between bounding box is in range [0-1]'')
      else None)"

section \<open>Peak extraction: properties\<close>

text \<open>
  C1 (the code departs from the claim). The claim, like the docstring of
  \<^verbatim>\<open>matchTemplates\<close> ("if nObjects=1, return the best matches independently of the
  score_threshold"), says that with \<open>nObjects = 1\<close> peak extraction skips the threshold
  and returns the global maximum of the surface. The source applies the threshold in every
  mode: on the one-cell surface holding 0.5, with threshold 0.6 and \<open>nObjects = 1\<close>,
  \<open>findMaximas\<close> returns no peak at all, whatever the peak search routine is, and
  \<open>findMatches\<close> on a template of the size of the image, correlating at 0.5, returns an
  empty pool.
\<close>

theorem findMaximas_single_object_thresholded:
  "findMaximas peak_local_max (scalar_map 0.5) 0.6 (PyInt 1) = []
   \<and> fst (findMatches (\<lambda>img template. Inr (scalar_map 0.5)) peak_local_max
            ex_template [ex_template] None 0.6 (PyInt 1) None) = Inr []"
  by (simp add: findMatches_def crop_def findMaximas_def scalar_map_def shape_def
      label_for_def)

text \<open>
  C2. On every surface of shape 1x1, \<open>findMaximas\<close> returns exactly the coordinate (0,0)
  when the only value is at least the threshold, and nothing otherwise.
\<close>

theorem findMaximas_one_cell:
  "shape corrMap = (1, 1) \<Longrightarrow>
     findMaximas peak_local_max corrMap score_threshold nObjects =
       (if px corrMap 0 0 \<ge> score_threshold then [(0, 0)] else [])"
  by (simp add: findMaximas_def)

theorem findMaximas_one_cell_witness:
  "shape (scalar_map 0.9) = (1, 1)
   \<and> findMaximas (\<lambda>m t n. [(7, 7)]) (scalar_map 0.9) 0.6 PyInf = [(0, 0)]
   \<and> findMaximas (\<lambda>m t n. [(7, 7)]) (scalar_map 0.9) 0.95 PyInf = []"
proof -
  have s: "shape (scalar_map 0.9) = (1, 1)"
    by (simp add: scalar_map_def shape_def)
  show ?thesis
    using s findMaximas_one_cell [OF s, of "\<lambda>m t n. [(7, 7)]" "0.6" PyInf]
      findMaximas_one_cell [OF s, of "\<lambda>m t n. [(7, 7)]" "0.95" PyInf]
    by (simp add: scalar_map_def)
qed

text \<open>
  C6. On every surface whose shape is not 1x1, \<open>findMaximas\<close> is one call of the peak
  search routine with the caller's threshold, asking for exactly one peak when
  \<open>nObjects\<close> equals 1 and for an unbounded number of peaks for every other value of
  \<open>nObjects\<close>, every integer above 1 included: the count asked for is never \<open>nObjects\<close>.
\<close>

theorem findMaximas_peak_count:
  "shape corrMap \<noteq> (1, 1) \<Longrightarrow>
     findMaximas peak_local_max corrMap score_threshold nObjects =
       peak_local_max corrMap score_threshold
         (if nObjects = PyInt 1 \<or> nObjects = PyFloat 1 then PyInt 1 else PyInf)"
  by (cases nObjects) (simp_all add: findMaximas_def nPeaks_def)

theorem findMaximas_peak_count_witness:
  "shape ex_surface \<noteq> (1, 1)
   \<and> findMaximas (\<lambda>m t n. if n = PyInt 1 then [(0, 0)] else [(0, 0), (1, 1)])
        ex_surface 0.5 (PyInt 1) = [(0, 0)]
   \<and> findMaximas (\<lambda>m t n. if n = PyInt 1 then [(0, 0)] else [(0, 0), (1, 1)])
        ex_surface 0.5 (PyInt 3) = [(0, 0), (1, 1)]"
proof -
  have s: "shape ex_surface \<noteq> (1, 1)"
    by (simp add: shape_def ex_surface_def)
  from s
    findMaximas_peak_count [OF s, of "\<lambda>m t n. if n = PyInt 1 then [(0, 0)] else [(0, 0), (1, 1)]"
      "0.5" "PyInt 1"]
    findMaximas_peak_count [OF s, of "\<lambda>m t n. if n = PyInt 1 then [(0, 0)] else [(0, 0), (1, 1)]"
      "0.5" "PyInt 3"]
  show ?thesis by simp
qed

section \<open>Candidate assembly: the result of the loops\<close>

lemma peaks_loop_result:
  "peaks_loop corrMap x y w h i l ps acc = Inr res \<Longrightarrow>
     res = acc @ map (\<lambda>p. BoundingBox (int (snd p) + x, int (fst p) + y, w, h)
                          (px corrMap (fst p) (snd p)) i l) ps"
proof (induction ps arbitrary: acc)
  case Nil
  then show ?case by simp
next
  case (Cons p ps)
  from Cons.prems obtain sc where
    sc: "item corrMap p = Inr sc"
    and rest: "peaks_loop corrMap x y w h i l ps
                 (acc @ [BoundingBox (int (snd p) + x, int (fst p) + y, w, h) sc i l]) = Inr res"
    by (auto split: sum.splits)
  from sc have "sc = px corrMap (fst p) (snd p)"
    by (auto simp: item_def split: if_splits)
  with Cons.IH [OF rest] show ?case by simp
qed

lemma templates_loop_result:
  "templates_loop mt plm img labels thr nObj x y index ts acc calls = (Inr pool, cs) \<Longrightarrow>
     pool = acc @ concat (map (\<lambda>(k, t). hits_of mt plm img labels thr nObj x y k t)
                            (enumerate index ts))
     \<and> cs = calls @ map (Pair img) ts
     \<and> (\<forall>t \<in> set ts. \<exists>cm. mt img t = Inr cm)"
proof (induction ts arbitrary: index acc calls)
  case Nil
  then show ?case by simp
next
  case (Cons t ts)
  from Cons.prems obtain cm lbl acc' where
    cm: "mt img t = Inr cm" and lbl: "label_for labels index = Inr lbl"
    and pl: "peaks_loop cm x y (ncols t) (nrows t) index lbl (findMaximas plm cm thr nObj) acc = Inr acc'"
    and rest: "templates_loop mt plm img labels thr nObj x y (Suc index) ts acc' (calls @ [(img, t)]) = (Inr pool, cs)"
    by (auto simp: Let_def split: sum.splits)
  have acc': "acc' = acc @ hits_of mt plm img labels thr nObj x y index t"
    using peaks_loop_result [OF pl] cm lbl by (simp add: hits_of_def hit_at_def)
  from Cons.IH [OF rest] acc' cm show ?case by simp
qed


lemma hits_of_index:
  "d \<in> set (hits_of mt plm img labels thr nObj x y k t) \<Longrightarrow> template_index d = k"
  by (auto simp: hits_of_def hit_at_def BoundingBox_def split: sum.splits)

lemma enumerate_hits_index:
  "d \<in> set (concat (map (\<lambda>(k, t). hits_of mt plm img labels thr nObj x y k t) (enumerate n ts)))
     \<Longrightarrow> n \<le> template_index d"
proof (induction ts arbitrary: n)
  case Nil
  then show ?case by simp
next
  case (Cons t ts)
  from Cons.prems consider
    (here) "d \<in> set (hits_of mt plm img labels thr nObj x y n t)"
    | (later) "d \<in> set (concat (map (\<lambda>(k, t). hits_of mt plm img labels thr nObj x y k t)
                                   (enumerate (Suc n) ts)))"
    by auto
  then show ?case
  proof cases
    case here
    then show ?thesis by (simp add: hits_of_index)
  next
    case later
    from Cons.IH [OF later] show ?thesis by simp
  qed
qed

lemma enumerate_hits_sorted:
  "sorted (map template_index
     (concat (map (\<lambda>(k, t). hits_of mt plm img labels thr nObj x y k t) (enumerate n ts))))"
proof (induction ts arbitrary: n)
  case Nil
  then show ?case by simp
next
  case (Cons t ts)
  have same: "\<forall>d \<in> set (hits_of mt plm img labels thr nObj x y n t). template_index d = n"
    by (simp add: hits_of_index)
  have above: "\<forall>d \<in> set (concat (map (\<lambda>(k, t). hits_of mt plm img labels thr nObj x y k t)
                                       (enumerate (Suc n) ts))). Suc n \<le> template_index d"
    using enumerate_hits_index by blast
  have "sorted (map template_index (hits_of mt plm img labels thr nObj x y n t))"
    using same by (simp add: sorted_wrt_iff_nth_less)
  with Cons.IH [of "Suc n"] same above show ?case
    by (fastforce simp: sorted_append)
qed

lemma enumerate_concat_nth:
  "concat (map (\<lambda>(k, t). f k t) (enumerate 0 ts)) =
     concat (map (\<lambda>i. f i (ts ! i)) [0..<length ts])"
proof -
  have "map (\<lambda>(k, t). f k t) (enumerate 0 ts) = map (\<lambda>i. f i (ts ! i)) [0..<length ts]"
    by (rule nth_equalityI) (simp_all add: nth_enumerate_eq)
  then show ?thesis by simp
qed

lemma findMatches_result:
  assumes "findMatches mt plm img ts labels thr nObj searchBox = (Inr pool, cs)"
    and "crop img searchBox = (img', xOffset, yOffset)"
  shows "pool = concat (map (\<lambda>(k, t). hits_of mt plm img' labels thr nObj xOffset yOffset k t)
                           (enumerate 0 ts))"
    and "cs = map (Pair img') ts"
    and "\<forall>t \<in> set ts. \<exists>cm. mt img' t = Inr cm"
    and "labels = None \<or> length (the labels) = length ts"
proof -
  from assms have loop:
    "templates_loop mt plm img' labels thr nObj xOffset yOffset 0 ts [] [] = (Inr pool, cs)"
    and lab: "labels = None \<or> length (the labels) = length ts"
    by (auto simp: findMatches_def split: if_splits)
  from templates_loop_result [OF loop] lab
  show "pool = concat (map (\<lambda>(k, t). hits_of mt plm img' labels thr nObj xOffset yOffset k t)
                           (enumerate 0 ts))"
    and "cs = map (Pair img') ts"
    and "\<forall>t \<in> set ts. \<exists>cm. mt img' t = Inr cm"
    and "labels = None \<or> length (the labels) = length ts"
    by simp_all
qed

lemma ex_pool1:
  "fst (findMatches ex_match_template ex_peak_local_max ex_image [ex_template] None 0.5 PyInf
          (Some (20, 20, 30, 30)))
   = Inr [\<lparr>bbox = (25, 25, 10, 10), score = 0.9, template_index = 0, label = ''''\<rparr>]"
  by (simp add: findMatches_def crop_def slice2_def slice_bound_def ex_image_def
      ex_template_def ex_match_template_def ex_peak_local_max_def findMaximas_def shape_def
      nPeaks_def label_for_def item_def BoundingBox_def Let_def)


lemma ex_pool2:
  "fst (findMatches ex_match_template ex_peak_local_max ex_image [ex_template, ex_template2]
          (Some [''cat'', ''dog'']) 0.5 (PyInt 2) None)
   = Inr [\<lparr>bbox = (5, 5, 10, 10), score = 0.9, template_index = 0, label = ''cat''\<rparr>,
          \<lparr>bbox = (5, 5, 8, 8), score = 0.9, template_index = 1, label = ''dog''\<rparr>]"
  by (simp add: findMatches_def crop_def ex_image_def ex_template2_def
      ex_template_def ex_match_template_def ex_peak_local_max_def findMaximas_def shape_def
      nPeaks_def label_for_def item_def BoundingBox_def Let_def)

lemma slice_bound_nonneg: "0 \<le> i \<Longrightarrow> slice_bound n i = min n (nat i)"
  by (auto simp: slice_bound_def Let_def)

lemma nat_min_int: "nat (min (int n) i) = min n (nat i)"
  by (simp add: min_def) linarith

lemma templates_loop_calls:
  "\<exists>k \<le> length ts. snd (templates_loop mt plm img labels thr nObj x y index ts acc calls)
      = calls @ map (Pair img) (take k ts)"
proof (induction ts arbitrary: index acc calls)
  case Nil
  then show ?case by simp
next
  case (Cons t ts)
  show ?case
  proof (cases "\<exists>acc'. templates_loop mt plm img labels thr nObj x y index (t # ts) acc calls
                  = templates_loop mt plm img labels thr nObj x y (Suc index) ts acc'
                      (calls @ [(img, t)])")
    case True
    then obtain acc' where step:
      "templates_loop mt plm img labels thr nObj x y index (t # ts) acc calls
         = templates_loop mt plm img labels thr nObj x y (Suc index) ts acc' (calls @ [(img, t)])"
      by blast
    from Cons.IH [of "Suc index" acc' "calls @ [(img, t)]"] obtain k where
      k: "k \<le> length ts"
      "snd (templates_loop mt plm img labels thr nObj x y (Suc index) ts acc' (calls @ [(img, t)]))
         = (calls @ [(img, t)]) @ map (Pair img) (take k ts)"
      by blast
    have "Suc k \<le> length (t # ts)
          \<and> snd (templates_loop mt plm img labels thr nObj x y index (t # ts) acc calls)
              = calls @ map (Pair img) (take (Suc k) (t # ts))"
      using k step by simp
    then show ?thesis by blast
  next
    case False
    then have "snd (templates_loop mt plm img labels thr nObj x y index (t # ts) acc calls)
                 = calls @ [(img, t)]"
      by (auto simp: Let_def split: sum.splits)
    then have "Suc 0 \<le> length (t # ts)
          \<and> snd (templates_loop mt plm img labels thr nObj x y index (t # ts) acc calls)
              = calls @ map (Pair img) (take (Suc 0) (t # ts))"
      by simp
    then show ?thesis by blast
  qed
qed

lemma findMatches_calls:
  assumes "crop img searchBox = (img', xOffset, yOffset)"
  shows "\<forall>c \<in> set (snd (findMatches mt plm img ts labels thr nObj searchBox)). fst c = img'"
proof -
  from templates_loop_calls [of ts mt plm img' labels thr nObj xOffset yOffset 0 "[]" "[]"]
  obtain k where
    "snd (templates_loop mt plm img' labels thr nObj xOffset yOffset 0 ts [] [])
       = map (Pair img') (take k ts)"
    by auto
  then have "\<forall>c \<in> set (snd (templates_loop mt plm img' labels thr nObj xOffset yOffset 0 ts [] [])).
               fst c = img'"
    by auto
  with assms show ?thesis
    by (simp add: findMatches_def)
qed

section \<open>Candidate assembly: properties\<close>

text \<open>
  C3. When \<open>findMatches\<close> returns a pool, each peak \<open>(r, c)\<close> that peak extraction
  returns on the surface of template \<open>i\<close> has its detection in the pool: position
  \<open>(c + xOffset, r + yOffset)\<close>, where the offsets are the origin of the search box and
  (0,0) without one; size the template's (width, height); score the surface's value at the
  peak; template index \<open>i\<close>; label the \<open>i\<close>-th label, or the empty string when no
  labels were given. With the search box (20,20,30,30), a peak at (5,5) gives a detection
  at (25,25).
\<close>

theorem findMatches_detection_of_peak:
  assumes "findMatches mt plm img ts labels thr nObj searchBox = (Inr pool, cs)"
    and "crop img searchBox = (img', xOffset, yOffset)"
    and "i < length ts"
    and "mt img' (ts ! i) = Inr corrMap"
    and "(r, c) \<in> set (findMaximas plm corrMap thr nObj)"
  shows "(xOffset, yOffset) = (case searchBox of None \<Rightarrow> (0, 0) | Some (x, y, w, h) \<Rightarrow> (x, y))
       \<and> \<lparr>bbox = (int c + xOffset, int r + yOffset, ncols (ts ! i), nrows (ts ! i)),
           score = px corrMap r c,
           template_index = i,
           label = (case labels of None \<Rightarrow> '''' | Some ls \<Rightarrow> ls ! i)\<rparr> \<in> set pool"
proof -
  have off: "(xOffset, yOffset) = (case searchBox of None \<Rightarrow> (0, 0) | Some (x, y, w, h) \<Rightarrow> (x, y))"
    using assms(2) by (auto simp: crop_def split: option.splits)
  note res = findMatches_result [OF assms(1,2)]
  let ?lbl = "case labels of None \<Rightarrow> '''' | Some ls \<Rightarrow> ls ! i"
  have lbl: "label_for labels i = Inr ?lbl"
    using res(4) assms(3) by (auto simp: label_for_def split: option.splits)
  have "hit_at corrMap xOffset yOffset (ts ! i) i ?lbl (r, c)
          \<in> set (hits_of mt plm img' labels thr nObj xOffset yOffset i (ts ! i))"
    using assms(4,5) lbl by (auto simp: hits_of_def)
  moreover have "set (hits_of mt plm img' labels thr nObj xOffset yOffset i (ts ! i)) \<subseteq> set pool"
    unfolding res(1) enumerate_concat_nth using assms(3) by auto
  ultimately have "hit_at corrMap xOffset yOffset (ts ! i) i ?lbl (r, c) \<in> set pool"
    by blast
  with off show ?thesis
    by (simp add: hit_at_def BoundingBox_def)
qed

theorem findMatches_detection_of_peak_witness:
  "crop ex_image (Some (20, 20, 30, 30)) = (slice2 ex_image 20 50 20 50, 20, 20)
   \<and> ex_match_template (slice2 ex_image 20 50 20 50) ([ex_template] ! 0)
       = Inr \<lparr>nrows = 21, ncols = 21, px = (\<lambda>i j. if i = 5 \<and> j = 5 then 0.9 else 0)\<rparr>
   \<and> (5, 5) \<in> set (findMaximas ex_peak_local_max
         \<lparr>nrows = 21, ncols = 21, px = (\<lambda>i j. if i = 5 \<and> j = 5 then 0.9 else 0)\<rparr> 0.5 PyInf)
   \<and> \<lparr>bbox = (25, 25, 10, 10), score = 0.9, template_index = 0, label = ''''\<rparr>
       \<in> set (projr (fst (findMatches ex_match_template ex_peak_local_max ex_image [ex_template]
                           None 0.5 PyInf (Some (20, 20, 30, 30)))))"
proof -
  let ?cm = "\<lparr>nrows = 21, ncols = 21, px = (\<lambda>i j. if i = 5 \<and> j = 5 then (0.9::real) else 0)\<rparr>"
  let ?res = "findMatches ex_match_template ex_peak_local_max ex_image [ex_template]
                None 0.5 PyInf (Some (20, 20, 30, 30))"
  let ?pool = "[\<lparr>bbox = (25, 25, 10, 10), score = 0.9, template_index = 0, label = ''''\<rparr>]"
  have h1: "?res = (Inr ?pool, snd ?res)"
    using ex_pool1 by (simp add: prod_eq_iff)
  have h2: "crop ex_image (Some (20, 20, 30, 30)) = (slice2 ex_image 20 50 20 50, 20, 20)"
    by (simp add: crop_def)
  have h3: "0 < length [ex_template]" by simp
  have h4: "ex_match_template (slice2 ex_image 20 50 20 50) ([ex_template] ! 0) = Inr ?cm"
    by (simp add: ex_match_template_def slice2_def slice_bound_def ex_image_def ex_template_def)
  have h5: "(5, 5) \<in> set (findMaximas ex_peak_local_max ?cm 0.5 PyInf)"
    by (simp add: findMaximas_def shape_def ex_peak_local_max_def)
  from findMatches_detection_of_peak [OF h1 h2 h3 h4 h5] h2 h4 h5 show ?thesis
    unfolding ex_pool1 by simp
qed

text \<open>
  C7. The pool \<open>findMatches\<close> returns is the concatenation, in the order of the template
  list, of what each template contributes, each contribution in the order the peaks were
  found; every detection of template \<open>i\<close> carries the index \<open>i\<close>, and a detection with
  a smaller template index always stands before one with a larger index.
\<close>

theorem findMatches_pool_order:
  assumes "findMatches mt plm img ts labels thr nObj searchBox = (Inr pool, cs)"
    and "crop img searchBox = (img', xOffset, yOffset)"
  shows "pool = concat (map (\<lambda>i. hits_of mt plm img' labels thr nObj xOffset yOffset i (ts ! i))
                           [0..<length ts])
       \<and> (\<forall>i < length ts. \<forall>d \<in> set (hits_of mt plm img' labels thr nObj xOffset yOffset i (ts ! i)).
             template_index d = i)
       \<and> (\<forall>a < length pool. \<forall>b < length pool.
             template_index (pool ! a) < template_index (pool ! b) \<longrightarrow> a < b)"
proof -
  note res = findMatches_result(1) [OF assms]
  have srt: "sorted (map template_index pool)"
    unfolding res by (rule enumerate_hits_sorted)
  have prec: "a < b" if "a < length pool" "b < length pool"
    "template_index (pool ! a) < template_index (pool ! b)" for a b
  proof (rule ccontr)
    assume "\<not> a < b"
    then have "b \<le> a" by simp
    with srt that have "map template_index pool ! b \<le> map template_index pool ! a"
      by (simp add: sorted_iff_nth_mono del: nth_map)
    with that show False by simp
  qed
  show ?thesis
    using res prec by (simp add: enumerate_concat_nth hits_of_index)
qed

theorem findMatches_pool_order_witness:
  "findMatches ex_match_template ex_peak_local_max ex_image [ex_template, ex_template2]
      (Some [''cat'', ''dog'']) 0.5 (PyInt 2) None
     = (Inr [\<lparr>bbox = (5, 5, 10, 10), score = 0.9, template_index = 0, label = ''cat''\<rparr>,
             \<lparr>bbox = (5, 5, 8, 8), score = 0.9, template_index = 1, label = ''dog''\<rparr>],
        [(ex_image, ex_template), (ex_image, ex_template2)])
   \<and> hits_of ex_match_template ex_peak_local_max ex_image (Some [''cat'', ''dog'']) 0.5 (PyInt 2)
        0 0 0 ex_template
       @ hits_of ex_match_template ex_peak_local_max ex_image (Some [''cat'', ''dog'']) 0.5
           (PyInt 2) 0 0 1 ex_template2
     = [\<lparr>bbox = (5, 5, 10, 10), score = 0.9, template_index = 0, label = ''cat''\<rparr>,
        \<lparr>bbox = (5, 5, 8, 8), score = 0.9, template_index = 1, label = ''dog''\<rparr>]"
proof -
  let ?res = "findMatches ex_match_template ex_peak_local_max ex_image [ex_template, ex_template2]
                (Some [''cat'', ''dog'']) 0.5 (PyInt 2) None"
  let ?pool = "[\<lparr>bbox = (5, 5, 10, 10), score = 0.9, template_index = 0, label = ''cat''\<rparr>,
                \<lparr>bbox = (5, 5, 8, 8), score = 0.9, template_index = 1, label = ''dog''\<rparr>]"
  have h1: "?res = (Inr ?pool, snd ?res)"
    using ex_pool2 by (simp add: prod_eq_iff)
  have h2: "crop ex_image None = (ex_image, 0, 0)"
    by (simp add: crop_def)
  have cs: "snd ?res = [(ex_image, ex_template), (ex_image, ex_template2)]"
    using findMatches_result(2) [OF h1 h2] by simp
  have up: "[0..<length [ex_template, ex_template2]] = [0, 1]"
    by (simp add: upt_rec)
  from findMatches_pool_order [OF h1 h2] have
    "?pool = concat (map (\<lambda>i. hits_of ex_match_template ex_peak_local_max ex_image
                (Some [''cat'', ''dog'']) 0.5 (PyInt 2) 0 0 i ([ex_template, ex_template2] ! i))
                [0..<length [ex_template, ex_template2]])"
    by blast
  then have "?pool = hits_of ex_match_template ex_peak_local_max ex_image
                (Some [''cat'', ''dog'']) 0.5 (PyInt 2) 0 0 0 ex_template
              @ hits_of ex_match_template ex_peak_local_max ex_image
                (Some [''cat'', ''dog'']) 0.5 (PyInt 2) 0 0 1 ex_template2"
    unfolding up by simp
  with h1 cs show ?thesis by simp
qed

text \<open>
  C10. With an empty template list, labels absent or empty, and a valid \<open>nObjects\<close>
  (infinite, or an integer of at least 1), \<open>findMatches\<close> returns the empty pool for
  every image, threshold and search box, raises nothing, and never calls the correlation
  routine: the log of calls is empty.
\<close>

theorem findMatches_no_templates:
  assumes "nObjects = PyInf \<or> (\<exists>n \<ge> 1. nObjects = PyInt n)"
    and "labels = None \<or> labels = Some []"
  shows "findMatches mt plm img [] labels thr nObjects searchBox = (Inr [], [])"
  using assms by (auto simp: findMatches_def split: prod.splits)

theorem findMatches_no_templates_witness:
  "findMatches ex_match_template ex_peak_local_max ex_image [] (Some []) 0.5 (PyInt 3)
     (Some (20, 20, 30, 30)) = (Inr [], [])
   \<and> findMatches ex_match_template ex_peak_local_max ex_image [] None 0.5 PyInf None
     = (Inr [], [])"
proof -
  have a: "PyInt 3 = PyInf \<or> (\<exists>n \<ge> 1. PyInt 3 = PyInt n)" by simp
  have b: "Some [] = None \<or> Some [] = Some ([]::string list)" by simp
  have c: "PyInf = PyInf \<or> (\<exists>n \<ge> 1. PyInf = PyInt n)" by simp
  have d: "None = None \<or> None = Some ([]::string list)" by simp
  from findMatches_no_templates [OF a b] findMatches_no_templates [OF c d]
  show ?thesis by blast
qed

section \<open>The search region: properties\<close>

text \<open>
  C9 (as stated, refuted). A search box may extend past the left or top border. On a 3x3
  image the box (-1, 0, 2, 3) meets the image in its first column, yet the crop has no
  column at all: the negative start of the slice counts from the end of the axis.
\<close>

theorem crop_negative_origin_counterexample:
  "shape (fst (crop ex_grid (Some (-1, 0, 2, 3)))) = (3, 0)
   \<and> shape (box_intersection ex_grid (-1, 0, 2, 3)) = (3, 1)"
  by (simp add: crop_def slice2_def slice_bound_def shape_def box_intersection_def ex_grid_def)

text \<open>
  C9 (amended). For every search box with a non-negative origin and size, whatever part of
  it lies past the right or bottom border, cropping raises nothing: the crop is the
  intersection of the box with the image (its shape, and each of its cells, read at the
  box's origin), every call of the correlation routine made by \<open>findMatches\<close> is on
  that crop, and the offsets are the requested origin \<open>(x, y)\<close>.
\<close>

theorem crop_clips_to_image:
  assumes "0 \<le> x" and "0 \<le> y" and "0 \<le> w" and "0 \<le> h"
  shows "\<exists>img'. crop img (Some (x, y, w, h)) = (img', x, y)
     \<and> shape img' = (min (nrows img) (nat (y + h)) - nat y, min (ncols img) (nat (x + w)) - nat x)
     \<and> shape img' = shape (box_intersection img (x, y, w, h))
     \<and> (\<forall>i < nrows img'. \<forall>j < ncols img'.
           px img' i j = px img (nat y + i) (nat x + j)
           \<and> px img' i j = px (box_intersection img (x, y, w, h)) i j)
     \<and> (\<forall>c \<in> set (snd (findMatches mt plm img ts labels thr nObj (Some (x, y, w, h)))).
           fst c = img')"
proof -
  let ?img' = "slice2 img y (y + h) x (x + w)"
  have c: "crop img (Some (x, y, w, h)) = (?img', x, y)"
    by (simp add: crop_def)
  have rows: "nrows ?img' = min (nrows img) (nat (y + h)) - nat y"
    using assms by (simp add: slice2_def slice_bound_nonneg Let_def)
  have cols: "ncols ?img' = min (ncols img) (nat (x + w)) - nat x"
    using assms by (simp add: slice2_def slice_bound_nonneg Let_def)
  have s1: "shape ?img' = (min (nrows img) (nat (y + h)) - nat y,
                           min (ncols img) (nat (x + w)) - nat x)"
    using rows cols by (simp add: shape_def)
  have s2: "shape ?img' = shape (box_intersection img (x, y, w, h))"
    using assms unfolding s1 by (simp add: shape_def box_intersection_def Let_def nat_min_int)
  have cells: "px ?img' i j = px img (nat y + i) (nat x + j)
               \<and> px ?img' i j = px (box_intersection img (x, y, w, h)) i j"
    if "i < nrows ?img'" "j < ncols ?img'" for i j
  proof -
    from that rows have "i < min (nrows img) (nat (y + h)) - nat y" by simp
    then have r: "nat y < nrows img" by linarith
    from that cols have "j < min (ncols img) (nat (x + w)) - nat x" by simp
    then have "nat x < ncols img" by linarith
    note r this
    with assms show ?thesis
      by (simp add: slice2_def slice_bound_nonneg Let_def box_intersection_def)
  qed
  from c s1 s2 cells findMatches_calls [OF c] show ?thesis by blast
qed

theorem crop_clips_to_image_witness:
  "crop ex_image (Some (30, 35, 30, 30)) = (slice2 ex_image 35 65 30 60, 30, 35)
   \<and> shape (slice2 ex_image 35 65 30 60) = (15, 20)
   \<and> px (slice2 ex_image 35 65 30 60) 2 3 = 1883
   \<and> snd (findMatches ex_match_template ex_peak_local_max ex_image [ex_template] None 0.5 PyInf
            (Some (30, 35, 30, 30)))
       = [(slice2 ex_image 35 65 30 60, ex_template)]"
proof -
  have h: "(0::int) \<le> 30" "(0::int) \<le> 35" by simp_all
  from crop_clips_to_image [OF h(1) h(2) h(1) h(1), of ex_image ex_match_template
      ex_peak_local_max "[ex_template]" None "0.5" PyInf]
  obtain img' where
    c: "crop ex_image (Some (30, 35, 30, 30)) = (img', 30, 35)"
    and s: "shape img' = (min (nrows ex_image) (nat (35 + 30)) - nat 35,
                          min (ncols ex_image) (nat (30 + 30)) - nat 30)"
    and cells: "\<forall>i < nrows img'. \<forall>j < ncols img'. px img' i j = px ex_image (nat 35 + i) (nat 30 + j)"
    by blast
  from c have eq: "img' = slice2 ex_image 35 65 30 60"
    by (simp add: crop_def)
  from s have s': "shape img' = (15, 20)"
    by (simp add: ex_image_def)
  then have "2 < nrows img'" "3 < ncols img'"
    by (simp_all add: shape_def)
  with cells have p: "px img' 2 3 = px ex_image 37 33"
    by fastforce
  have l: "snd (findMatches ex_match_template ex_peak_local_max ex_image [ex_template] None 0.5
                  PyInf (Some (30, 35, 30, 30)))
           = [(slice2 ex_image 35 65 30 60, ex_template)]"
    by (simp add: findMatches_def crop_def ex_match_template_def slice2_def slice_bound_def
        ex_image_def ex_template_def findMaximas_def shape_def nPeaks_def
        ex_peak_local_max_def label_for_def item_def Let_def)
  from p have p': "px img' 2 3 = 1883"
    by (simp add: ex_image_def)
  from c s' p' l show ?thesis
    unfolding eq by simp
qed

section \<open>The pipeline: validation\<close>

text \<open>
  C4 (as stated, refuted). The specification's order puts the check of \<open>maxOverlap\<close>
  last. With \<open>nObjects = 0\<close> and \<open>maxOverlap = 2\<close> that order reports the object
  count, while \<open>matchTemplates\<close> reports the overlap.
\<close>

theorem matchTemplates_claimed_order_counterexample:
  "validation_in_claimed_order (PyInt 0) (length [ex_template]) None 2
     = Some (ValueError ''At least one object should be expected in the image'')
   \<and> fst (matchTemplates ex_match_template ex_peak_local_max ex_NMS ex_image [ex_template]
            None 0.5 2 (PyInt 0) None)
     = Inl (ValueError ''Maximal overlap between bounding box is in range [0-1]'')"
  by (simp add: validation_in_claimed_order_def matchTemplates_def)

text \<open>
  C4 (amended). \<open>matchTemplates\<close> checks \<open>maxOverlap \<in> [0,1]\<close> first; then, inside
  \<open>findMatches\<close>, that \<open>nObjects\<close> is an integer or infinite, then that it is at
  least 1, then that there is one label per template when labels are given. Each failing
  check raises a \<open>ValueError\<close> or \<open>TypeError\<close>, and an earlier check wins over a
  later one.
\<close>

theorem matchTemplates_validation_order:
  "(maxOverlap < 0 \<or> maxOverlap > 1 \<longrightarrow>
      matchTemplates mt plm nms img ts labels thr maxOverlap nObjects searchBox
        = (Inl (ValueError ''Maximal overlap between bounding box is in range [0-1]''), []))
   \<and> (0 \<le> maxOverlap \<and> maxOverlap \<le> 1 \<and> (\<exists>r. nObjects = PyFloat r) \<longrightarrow>
      matchTemplates mt plm nms img ts labels thr maxOverlap nObjects searchBox
        = (Inl (TypeError ''nObjects must be an integer''), []))
   \<and> (0 \<le> maxOverlap \<and> maxOverlap \<le> 1 \<and> (\<exists>n < 1. nObjects = PyInt n) \<longrightarrow>
      matchTemplates mt plm nms img ts labels thr maxOverlap nObjects searchBox
        = (Inl (ValueError ''At least one object should be expected in the image''), []))
   \<and> (0 \<le> maxOverlap \<and> maxOverlap \<le> 1 \<and> (nObjects = PyInf \<or> (\<exists>n \<ge> 1. nObjects = PyInt n))
        \<and> (\<exists>ls. labels = Some ls \<and> length ls \<noteq> length ts) \<longrightarrow>
      matchTemplates mt plm nms img ts labels thr maxOverlap nObjects searchBox
        = (Inl (ValueError ''There must be one label per template.''), []))"
  by (auto simp: matchTemplates_def findMatches_def)

theorem matchTemplates_validation_order_witness:
  "matchTemplates ex_match_template ex_peak_local_max ex_NMS ex_image
      [ex_template, ex_template2, ex_template] (Some [''cat'', ''dog'']) 0.5 2 (PyFloat 2.5) None
     = (Inl (ValueError ''Maximal overlap between bounding box is in range [0-1]''), [])
   \<and> matchTemplates ex_match_template ex_peak_local_max ex_NMS ex_image
      [ex_template, ex_template2, ex_template] (Some [''cat'', ''dog'']) 0.5 0.25 (PyFloat 2.5) None
     = (Inl (TypeError ''nObjects must be an integer''), [])
   \<and> matchTemplates ex_match_template ex_peak_local_max ex_NMS ex_image
      [ex_template, ex_template2, ex_template] (Some [''cat'', ''dog'']) 0.5 0.25 (PyInt 0) None
     = (Inl (ValueError ''At least one object should be expected in the image''), [])
   \<and> matchTemplates ex_match_template ex_peak_local_max ex_NMS ex_image
      [ex_template, ex_template2, ex_template] (Some [''cat'', ''dog'']) 0.5 0.25 (PyInt 2) None
     = (Inl (ValueError ''There must be one label per template.''), [])"
proof -
  let ?ts = "[ex_template, ex_template2, ex_template]"
  let ?labels = "Some [''cat'', ''dog'']"
  have big: "(2::real) < 0 \<or> (2::real) > 1" by simp
  have ok: "(0::real) \<le> 0.25 \<and> (0.25::real) \<le> 1" by simp
  have fl: "\<exists>r. PyFloat 2.5 = PyFloat r" by blast
  have zero: "\<exists>n < 1. PyInt 0 = PyInt n" by simp
  have two: "PyInt 2 = PyInf \<or> (\<exists>n \<ge> 1. PyInt 2 = PyInt n)" by simp
  have lab: "\<exists>ls. ?labels = Some ls \<and> length ls \<noteq> length ?ts" by simp
  from big matchTemplates_validation_order [of 2 ex_match_template ex_peak_local_max ex_NMS
      ex_image ?ts ?labels "0.5" "PyFloat 2.5" None]
  have a: "matchTemplates ex_match_template ex_peak_local_max ex_NMS ex_image ?ts ?labels
             0.5 2 (PyFloat 2.5) None
           = (Inl (ValueError ''Maximal overlap between bounding box is in range [0-1]''), [])"
    by blast
  from ok fl matchTemplates_validation_order [of "0.25" ex_match_template ex_peak_local_max
      ex_NMS ex_image ?ts ?labels "0.5" "PyFloat 2.5" None]
  have b: "matchTemplates ex_match_template ex_peak_local_max ex_NMS ex_image ?ts ?labels
             0.5 0.25 (PyFloat 2.5) None
           = (Inl (TypeError ''nObjects must be an integer''), [])"
    by blast
  from ok zero matchTemplates_validation_order [of "0.25" ex_match_template ex_peak_local_max
      ex_NMS ex_image ?ts ?labels "0.5" "PyInt 0" None]
  have c: "matchTemplates ex_match_template ex_peak_local_max ex_NMS ex_image ?ts ?labels
             0.5 0.25 (PyInt 0) None
           = (Inl (ValueError ''At least one object should be expected in the image''), [])"
    by blast
  from ok two lab matchTemplates_validation_order [of "0.25" ex_match_template ex_peak_local_max
      ex_NMS ex_image ?ts ?labels "0.5" "PyInt 2" None]
  have d: "matchTemplates ex_match_template ex_peak_local_max ex_NMS ex_image ?ts ?labels
             0.5 0.25 (PyInt 2) None
           = (Inl (ValueError ''There must be one label per template.''), [])"
    by blast
  from a b c d show ?thesis by blast
qed

text \<open>
  C5. For every invalid argument combination (\<open>nObjects\<close> not an integer, or an integer
  below 1; labels given but not one per template; \<open>maxOverlap\<close> outside [0,1]),
  \<open>matchTemplates\<close> raises a \<open>TypeError\<close> or \<open>ValueError\<close> and the log of calls of
  the correlation routine is empty: it fails before any correlation. Two labels for three
  templates is such a case.
\<close>

theorem matchTemplates_fails_before_correlation:
  assumes "(\<exists>r. nObjects = PyFloat r) \<or> (\<exists>n < 1. nObjects = PyInt n)
           \<or> (\<exists>ls. labels = Some ls \<and> length ls \<noteq> length ts)
           \<or> maxOverlap < 0 \<or> maxOverlap > 1"
  shows "\<exists>msg. (matchTemplates mt plm nms img ts labels thr maxOverlap nObjects searchBox
                   = (Inl (TypeError msg), [])
               \<or> matchTemplates mt plm nms img ts labels thr maxOverlap nObjects searchBox
                   = (Inl (ValueError msg), []))"
  using assms by (auto simp: matchTemplates_def findMatches_def)

theorem matchTemplates_fails_before_correlation_witness:
  "length [''cat'', ''dog''] \<noteq> length [ex_template, ex_template2, ex_template]
   \<and> (\<exists>msg. matchTemplates ex_match_template ex_peak_local_max ex_NMS ex_image
               [ex_template, ex_template2, ex_template] (Some [''cat'', ''dog''])
               0.5 0.25 PyInf None = (Inl (ValueError msg), []))"
proof -
  have h: "(\<exists>r. PyInf = PyFloat r) \<or> (\<exists>n < 1. PyInf = PyInt n)
           \<or> (\<exists>ls. Some [''cat'', ''dog''] = Some ls
                  \<and> length ls \<noteq> length [ex_template, ex_template2, ex_template])
           \<or> (0.25::real) < 0 \<or> (0.25::real) > 1"
    by simp
  from matchTemplates_fails_before_correlation [OF h, of ex_match_template ex_peak_local_max
      ex_NMS ex_image "0.5" None]
  show ?thesis
    by (simp add: matchTemplates_def findMatches_def)
qed

section \<open>Plotting: properties\<close>

lemma plot_loop_result:
  "palette \<noteq> [] \<Longrightarrow>
     \<exists>m. plot_loop palette thickness showLegend ds plots mapLabelColor =
       Inr (plots @ map (\<lambda>d. \<lparr>outlined = d, linewidth = thickness,
                               color = palette ! (template_index d mod length palette)\<rparr>) ds, m)"
proof (induction ds arbitrary: plots mapLabelColor)
  case Nil
  then show ?case by simp
next
  case (Cons d ds)
  let ?c = "palette ! (template_index d mod length palette)"
  let ?m = "if showLegend \<and> label d \<noteq> '''' then dict_set (label d) ?c mapLabelColor
            else mapLabelColor"
  from Cons.IH [OF Cons.prems, of "plots @ [\<lparr>outlined = d, linewidth = thickness, color = ?c\<rparr>]" ?m]
  obtain m where
    "plot_loop palette thickness showLegend ds
       (plots @ [\<lparr>outlined = d, linewidth = thickness, color = ?c\<rparr>]) ?m =
     Inr ((plots @ [\<lparr>outlined = d, linewidth = thickness, color = ?c\<rparr>]) @
          map (\<lambda>d. \<lparr>outlined = d, linewidth = thickness,
                     color = palette ! (template_index d mod length palette)\<rparr>) ds, m)"
    by blast
  with Cons.prems show ?case
    by (simp add: colorIndex_def Let_def)
qed

text \<open>
  C8. With a non-empty palette, \<open>plotDetections\<close> draws one outline per detection, in
  order, and the colour of each is the palette entry at index
  \<open>template_index mod length palette\<close>; the colour index depends on the template index
  and the palette size only, so two detections with the same template index get the same
  colour.
\<close>

theorem plotDetections_colors:
  assumes "palette \<noteq> []"
  shows "(\<exists>lg. plotDetections palette listDetections thickness showLegend =
            Inr (map (\<lambda>d. \<lparr>outlined = d, linewidth = thickness,
                            color = palette ! (template_index d mod length palette)\<rparr>)
                   listDetections, lg))
       \<and> (\<forall>d. colorIndex d (length palette) = Inr (template_index d mod length palette))
       \<and> (\<forall>d d'. template_index d = template_index d' \<longrightarrow>
             colorIndex d (length palette) = colorIndex d' (length palette))"
proof -
  from plot_loop_result [OF assms, of thickness showLegend listDetections "[]" "[]"]
  obtain m where "plot_loop palette thickness showLegend listDetections [] [] =
       Inr (map (\<lambda>d. \<lparr>outlined = d, linewidth = thickness,
                       color = palette ! (template_index d mod length palette)\<rparr>)
              listDetections, m)"
    by auto
  then have "\<exists>lg. plotDetections palette listDetections thickness showLegend =
           Inr (map (\<lambda>d. \<lparr>outlined = d, linewidth = thickness,
                           color = palette ! (template_index d mod length palette)\<rparr>)
                  listDetections, lg)"
    by (simp add: plotDetections_def)
  with assms show ?thesis
    by (simp add: colorIndex_def)
qed

theorem plotDetections_colors_witness:
  "[''red'', ''green'', ''blue''] \<noteq> []
   \<and> map color (fst (projr (plotDetections [''red'', ''green'', ''blue'']
        [BoundingBox (5, 5, 10, 10) 0.9 4 ''cat'', BoundingBox (7, 9, 8, 8) 0.7 2 ''dog'',
         BoundingBox (30, 5, 10, 10) 0.8 4 ''cat''] 2 True)))
     = [''green'', ''blue'', ''green'']"
proof -
  have h: "[''red'', ''green'', ''blue''] \<noteq> []" by simp
  from plotDetections_colors [OF h, of
      "[BoundingBox (5, 5, 10, 10) 0.9 4 ''cat'', BoundingBox (7, 9, 8, 8) 0.7 2 ''dog'',
        BoundingBox (30, 5, 10, 10) 0.8 4 ''cat'']" 2 True]
  obtain lg where "plotDetections [''red'', ''green'', ''blue'']
        [BoundingBox (5, 5, 10, 10) 0.9 4 ''cat'', BoundingBox (7, 9, 8, 8) 0.7 2 ''dog'',
         BoundingBox (30, 5, 10, 10) 0.8 4 ''cat''] 2 True
      = Inr (map (\<lambda>d. \<lparr>outlined = d, linewidth = 2,
                color = [''red'', ''green'', ''blue'']
                          ! (template_index d mod length [''red'', ''green'', ''blue''])\<rparr>)
              [BoundingBox (5, 5, 10, 10) 0.9 4 ''cat'', BoundingBox (7, 9, 8, 8) 0.7 2 ''dog'',
               BoundingBox (30, 5, 10, 10) 0.8 4 ''cat''], lg)"
    by blast
  then show ?thesis
    by (simp add: BoundingBox_def)
qed

end
